theory Spec2Isabelle
  imports Complex_Main "HOL-Library.Word"
begin

section \<open>The contract HybridProductivityFHE\<close>

subsection \<open>Storage layout\<close>

type_synonym uint256 = "256 word"
type_synonym uint32 = "32 word"
type_synonym bytes32 = "256 word"
type_synonym bytes = "8 word list"

text \<open>
  \<open>euint32\<close> is the library's ciphertext handle, a 256-bit value; the contract only
  stores it and hands it back to the library.
\<close>

type_synonym euint32 = "256 word"

record EncryptedMetric =
  id_em :: uint256
  encryptedOutput :: euint32
  encryptedHours :: euint32
  encryptedTasks :: euint32
  timestamp :: uint256

record RevealedMetric =
  output_rm :: uint256
  hours :: uint256
  tasks :: uint256
  revealed :: bool

text \<open>
  A Solidity mapping is total: a key that was never written reads as the zero value
  of the value type. The mappings are therefore functions, and the fresh contract
  holds zero everywhere.
\<close>

record storage =
  metricCount :: uint256
  encryptedMetrics :: "uint256 \<Rightarrow> EncryptedMetric"
  revealedMetrics :: "uint256 \<Rightarrow> RevealedMetric"
  encryptedTaskCounters :: "string \<Rightarrow> euint32"
  taskCategories :: "string list"
  requestToMetricId :: "uint256 \<Rightarrow> uint256"
  requestToCategoryHash :: "uint256 \<Rightarrow> bytes32"

definition zero_EncryptedMetric :: EncryptedMetric where
  "zero_EncryptedMetric =
     \<lparr>id_em = 0, encryptedOutput = 0, encryptedHours = 0, encryptedTasks = 0, timestamp = 0\<rparr>"

definition zero_RevealedMetric :: RevealedMetric where
  "zero_RevealedMetric = \<lparr>output_rm = 0, hours = 0, tasks = 0, revealed = False\<rparr>"

definition deployed :: storage where
  "deployed =
     \<lparr>metricCount = 0,
      encryptedMetrics = (\<lambda>_. zero_EncryptedMetric),
      revealedMetrics = (\<lambda>_. zero_RevealedMetric),
      encryptedTaskCounters = (\<lambda>_. 0),
      taskCategories = [],
      requestToMetricId = (\<lambda>_. 0),
      requestToCategoryHash = (\<lambda>_. 0)\<rparr>"

subsection \<open>What one transaction sees from outside the contract\<close>

text \<open>
  The contract calls into the library \<open>@fhevm/solidity\<close> (\<open>FHE.*\<close>) and uses the
  built-ins \<open>block.timestamp\<close>, \<open>keccak256\<close> and \<open>abi.decode\<close>. None of that is
  code of the contract, so one transaction receives it as a parameter: a call that can
  revert returns \<open>None\<close> (or \<open>False\<close> for \<open>checkSignatures\<close>, which returns
  nothing when it succeeds).
\<close>

datatype selector = HandleMetricDecryptionSelector | HandleCategoryDecryptionSelector

record env =
  block_timestamp :: uint256
  FHE_toBytes32 :: "euint32 \<Rightarrow> bytes32"
  FHE_requestDecryption :: "bytes32 list \<Rightarrow> selector \<Rightarrow> uint256 option"
  FHE_checkSignatures :: "uint256 \<Rightarrow> bytes \<Rightarrow> bytes \<Rightarrow> bool"
  FHE_isInitialized :: "euint32 \<Rightarrow> bool"
  FHE_asEuint32 :: "uint32 \<Rightarrow> euint32"
  FHE_add :: "euint32 \<Rightarrow> euint32 \<Rightarrow> euint32"
  keccak256 :: "string \<Rightarrow> bytes32"
  abi_decode_uint256_array :: "bytes \<Rightarrow> uint256 list option"
  abi_decode_uint32 :: "bytes \<Rightarrow> uint32 option"

subsection \<open>Reverts and events\<close>

datatype error =
    AlreadyRevealed      \<comment> \<open>\<open>require(..., "Already revealed")\<close>\<close>
  | InvalidRequest       \<comment> \<open>\<open>require(..., "Invalid request")\<close>\<close>
  | CategoryUnknown      \<comment> \<open>\<open>require(..., "Category unknown")\<close>\<close>
  | UnknownRequest       \<comment> \<open>\<open>require(..., "Unknown request")\<close>\<close>
  | CategoryNotFound     \<comment> \<open>\<open>revert("Category not found")\<close>\<close>
  | ArithmeticOverflow   \<comment> \<open>checked arithmetic of Solidity 0.8, \<open>Panic(0x11)\<close>\<close>
  | IndexOutOfBounds     \<comment> \<open>array read past its length, \<open>Panic(0x32)\<close>\<close>
  | DecodeFailed         \<comment> \<open>\<open>abi.decode\<close> on malformed data\<close>
  | LibraryRevert        \<comment> \<open>a revert inside an \<open>FHE.*\<close> call\<close>

datatype event =
    MetricSubmitted uint256 uint256
  | MetricDecryptionRequested uint256
  | MetricRevealed uint256
  | CategoryCountDecryptionRequested string
  | CategoryCountDecrypted string uint32

type_synonym result = "error + storage \<times> event list"

subsection \<open>The external functions\<close>

text \<open>\<open>metricCount += 1\<close> under checked arithmetic, then the two struct writes.\<close>

definition submitEncryptedMetric ::
  "env \<Rightarrow> storage \<Rightarrow> euint32 \<Rightarrow> euint32 \<Rightarrow> euint32 \<Rightarrow> result" where
  "submitEncryptedMetric e s encOutput encHours encTasks =
     (if metricCount s = - 1 then Inl ArithmeticOverflow
      else
        let newId = metricCount s + 1;
            s1 = s\<lparr>metricCount := newId\<rparr>;
            s2 = s1\<lparr>encryptedMetrics := (encryptedMetrics s1)
                     (newId := \<lparr>id_em = newId, encryptedOutput = encOutput,
                                encryptedHours = encHours, encryptedTasks = encTasks,
                                timestamp = block_timestamp e\<rparr>)\<rparr>;
            s3 = s2\<lparr>revealedMetrics := (revealedMetrics s2)
                     (newId := \<lparr>output_rm = 0, hours = 0, tasks = 0, revealed = False\<rparr>)\<rparr>
        in Inr (s3, [MetricSubmitted newId (block_timestamp e)]))"

text \<open>
  The modifier \<open>onlyEmployee\<close> has the empty body \<open>_;\<close>. The three ciphertext handles
  of \<open>encryptedMetrics[metricId]\<close> go to the library in the order output, hours, tasks.
\<close>

definition requestMetricDecryption :: "env \<Rightarrow> storage \<Rightarrow> uint256 \<Rightarrow> result" where
  "requestMetricDecryption e s metricId =
     (if revealed (revealedMetrics s metricId) then Inl AlreadyRevealed
      else
        let em = encryptedMetrics s metricId;
            ciphers = [FHE_toBytes32 e (encryptedOutput em),
                       FHE_toBytes32 e (encryptedHours em),
                       FHE_toBytes32 e (encryptedTasks em)]
        in case FHE_requestDecryption e ciphers HandleMetricDecryptionSelector of
             None \<Rightarrow> Inl LibraryRevert
           | Some reqId \<Rightarrow>
               Inr (s\<lparr>requestToMetricId := (requestToMetricId s)(reqId := metricId)\<rparr>,
                    [MetricDecryptionRequested metricId]))"

text \<open>
  After the two guards and the library's signature check, the three plaintexts are
  written and the flag is set; then the counter of the fixed category is created as an
  encrypted 0 and listed when it is not initialized, and increased by an encrypted 1.
\<close>

definition handleMetricDecryption ::
  "env \<Rightarrow> storage \<Rightarrow> uint256 \<Rightarrow> bytes \<Rightarrow> bytes \<Rightarrow> result" where
  "handleMetricDecryption e s requestId cleartexts proof =
     (let metricId = requestToMetricId s requestId in
      if metricId = 0 then Inl InvalidRequest
      else if revealed (revealedMetrics s metricId) then Inl AlreadyRevealed
      else if \<not> FHE_checkSignatures e requestId cleartexts proof then Inl LibraryRevert
      else case abi_decode_uint256_array e cleartexts of
             None \<Rightarrow> Inl DecodeFailed
           | Some results \<Rightarrow>
               if length results < 3 then Inl IndexOutOfBounds
               else
                 let rm = (revealedMetrics s metricId)
                            \<lparr>output_rm := results ! 0, hours := results ! 1,
                             tasks := results ! 2, revealed := True\<rparr>;
                     s1 = s\<lparr>revealedMetrics := (revealedMetrics s)(metricId := rm)\<rparr>;
                     category = ''TaskCategory'';
                     s2 = (if \<not> FHE_isInitialized e (encryptedTaskCounters s1 category)
                           then s1\<lparr>encryptedTaskCounters :=
                                     (encryptedTaskCounters s1)(category := FHE_asEuint32 e 0),
                                   taskCategories := taskCategories s1 @ [category]\<rparr>
                           else s1);
                     s3 = s2\<lparr>encryptedTaskCounters := (encryptedTaskCounters s2)
                            (category := FHE_add e (encryptedTaskCounters s2 category)
                                                   (FHE_asEuint32 e 1))\<rparr>
                 in Inr (s3, [MetricRevealed metricId]))"

text \<open>The modifier \<open>onlyManager\<close> has the empty body \<open>_;\<close> as well.\<close>

definition requestCategoryDecryption :: "env \<Rightarrow> storage \<Rightarrow> string \<Rightarrow> result" where
  "requestCategoryDecryption e s category =
     (let count = encryptedTaskCounters s category in
      if \<not> FHE_isInitialized e count then Inl CategoryUnknown
      else case FHE_requestDecryption e [FHE_toBytes32 e count] HandleCategoryDecryptionSelector of
             None \<Rightarrow> Inl LibraryRevert
           | Some reqId \<Rightarrow>
               Inr (s\<lparr>requestToCategoryHash :=
                        (requestToCategoryHash s)(reqId := keccak256 e category)\<rparr>,
                    [CategoryCountDecryptionRequested category]))"

text \<open>The loop of \<open>_categoryFromHash\<close>: the first listed category with the hash.\<close>

fun categoryFromHash :: "env \<Rightarrow> string list \<Rightarrow> bytes32 \<Rightarrow> error + string" where
  "categoryFromHash e [] h = Inl CategoryNotFound"
| "categoryFromHash e (c # cs) h =
     (if keccak256 e c = h then Inr c else categoryFromHash e cs h)"

definition handleCategoryDecryption ::
  "env \<Rightarrow> storage \<Rightarrow> uint256 \<Rightarrow> bytes \<Rightarrow> bytes \<Rightarrow> result" where
  "handleCategoryDecryption e s requestId cleartexts proof =
     (let categoryHash = requestToCategoryHash s requestId in
      if categoryHash = 0 then Inl UnknownRequest
      else if \<not> FHE_checkSignatures e requestId cleartexts proof then Inl LibraryRevert
      else case abi_decode_uint32 e cleartexts of
             None \<Rightarrow> Inl DecodeFailed
           | Some count \<Rightarrow>
               (case categoryFromHash e (taskCategories s) categoryHash of
                  Inl err \<Rightarrow> Inl err
                | Inr category \<Rightarrow> Inr (s, [CategoryCountDecrypted category count])))"

subsection \<open>Transactions and call sequences\<close>

datatype call =
    SubmitEncryptedMetric euint32 euint32 euint32
  | RequestMetricDecryption uint256
  | HandleMetricDecryption uint256 bytes bytes
  | RequestCategoryDecryption string
  | HandleCategoryDecryption uint256 bytes bytes

fun exec :: "env \<Rightarrow> storage \<Rightarrow> call \<Rightarrow> result" where
  "exec e s (SubmitEncryptedMetric a b c) = submitEncryptedMetric e s a b c"
| "exec e s (RequestMetricDecryption m) = requestMetricDecryption e s m"
| "exec e s (HandleMetricDecryption r ct pf) = handleMetricDecryption e s r ct pf"
| "exec e s (RequestCategoryDecryption c) = requestCategoryDecryption e s c"
| "exec e s (HandleCategoryDecryption r ct pf) = handleCategoryDecryption e s r ct pf"

text \<open>A transaction that reverts leaves the storage as it was and emits nothing.\<close>

definition transact :: "env \<Rightarrow> storage \<Rightarrow> call \<Rightarrow> storage \<times> event list" where
  "transact e s c = (case exec e s c of Inl err \<Rightarrow> (s, []) | Inr r \<Rightarrow> r)"

text \<open>
  The chain runs transactions one after the other. \<open>trace\<close> lists the storage before
  the first call and after each call, \<open>emitted\<close> the events in order.
\<close>

fun trace :: "storage \<Rightarrow> (env \<times> call) list \<Rightarrow> storage list" where
  "trace s [] = [s]"
| "trace s ((e, c) # cs) = s # trace (fst (transact e s c)) cs"

fun emitted :: "storage \<Rightarrow> (env \<times> call) list \<Rightarrow> event list" where
  "emitted s [] = []"
| "emitted s ((e, c) # cs) = snd (transact e s c) @ emitted (fst (transact e s c)) cs"

definition final :: "storage \<Rightarrow> (env \<times> call) list \<Rightarrow> storage" where
  "final s cs = last (trace s cs)"

section \<open>The frontend record manager (App.tsx)\<close>

subsection \<open>JavaScript values and exceptions\<close>

datatype json =
    JNull | JBool bool | JNum rat | JStr string | JArr "json list" | JObj "(string \<times> json) list"

datatype jsval = Undefined | Defined json

datatype js_error = TypeError | CallRejected | NoContract

record ProductivityRecord =
  id_r :: json
  encryptedData :: jsval
  timestamp_r :: jsval
  owner :: jsval
  workType :: jsval
  productivityScore :: jsval

text \<open>
  What the runtime supplies: \<open>JSON.parse(ethers.toUtf8String(b))\<close> on a blob
  (\<open>None\<close> when either of the two throws); \<open>JSON.stringify\<close>; the string conversion
  of a value inside a template literal (\<open>None\<close> when it throws a \<open>TypeError\<close>, as it
  does for an object whose \<open>toString\<close> is not callable); and
  \<open>list.sort((a, b) => b.timestamp - a.timestamp)\<close> on a list that is not empty
  (\<open>None\<close> when the comparator throws, as it does for a timestamp object that has no
  primitive value; the order where the comparator is not consistent is the engine's).
\<close>

record runtime =
  JSON_parse :: "string \<Rightarrow> json option"
  JSON_stringify :: "json \<Rightarrow> string"
  js_String :: "json \<Rightarrow> string option"
  Array_sort :: "ProductivityRecord list \<Rightarrow> ProductivityRecord list option"

subsection \<open>The contract as the frontend sees it\<close>

type_synonym chain = "string \<Rightarrow> string"

text \<open>
  Modelled from the spec: the contract binding \<open>./contract\<close> and the entry points
  \<open>setData(key, bytes)\<close> and \<open>getData(key) -> bytes\<close> are not among the sources. The
  spec gives them as generic string-keyed byte blobs in contract storage. A call either
  takes effect or is rejected (the awaited promise throws) and changes nothing; the flag
  says which.
\<close>

definition setData :: "bool \<Rightarrow> chain \<Rightarrow> string \<Rightarrow> string \<Rightarrow> js_error + chain" where
  "setData ok ch key val = (if ok then Inr (ch(key := val)) else Inl CallRejected)"

definition getData :: "bool \<Rightarrow> chain \<Rightarrow> string \<Rightarrow> js_error + string" where
  "getData ok ch key = (if ok then Inr (ch key) else Inl CallRejected)"

subsection \<open>loadRecords\<close>

text \<open>
  \<open>let keys = []; if (keysBytes.length > 0) { try { keys = JSON.parse(...) } catch { log } }\<close>,
  the same block in \<open>loadRecords\<close> and in \<open>submitRecord\<close>.
\<close>

definition parse_keys :: "runtime \<Rightarrow> string \<Rightarrow> json" where
  "parse_keys rt keysBytes =
     (if length keysBytes > 0
      then (case JSON_parse rt keysBytes of None \<Rightarrow> JArr [] | Some v \<Rightarrow> v)
      else JArr [])"

text \<open>
  \<open>for (const key of keys)\<close>: an array yields its elements, a string its characters,
  and any other value is not iterable.
\<close>

fun iterate :: "json \<Rightarrow> js_error + json list" where
  "iterate (JArr xs) = Inr xs"
| "iterate (JStr s) = Inr (map (\<lambda>c. JStr [c]) s)"
| "iterate v = Inl TypeError"

text \<open>
  Reading a property: \<open>null.data\<close> throws, an object gives the property or
  \<open>undefined\<close>, and the five names read here are properties of no other parsed value.
\<close>

fun get_prop :: "json \<Rightarrow> string \<Rightarrow> js_error + jsval" where
  "get_prop JNull name = Inl TypeError"
| "get_prop (JObj kvs) name =
     Inr (case map_of kvs name of None \<Rightarrow> Undefined | Some v \<Rightarrow> Defined v)"
| "get_prop v name = Inr Undefined"

definition make_record :: "json \<Rightarrow> json \<Rightarrow> js_error + ProductivityRecord" where
  "make_record key recordData =
     (case get_prop recordData ''data'' of Inl err \<Rightarrow> Inl err | Inr d \<Rightarrow>
     (case get_prop recordData ''timestamp'' of Inl err \<Rightarrow> Inl err | Inr t \<Rightarrow>
     (case get_prop recordData ''owner'' of Inl err \<Rightarrow> Inl err | Inr ow \<Rightarrow>
     (case get_prop recordData ''workType'' of Inl err \<Rightarrow> Inl err | Inr w \<Rightarrow>
     (case get_prop recordData ''productivityScore'' of Inl err \<Rightarrow> Inl err | Inr p \<Rightarrow>
        Inr \<lparr>id_r = key, encryptedData = d, timestamp_r = t, owner = ow, workType = w,
             productivityScore = p\<rparr>)))))"

text \<open>
  The body of the loop for one key. The template literal \<open>record_${key}\<close> is
  evaluated inside the outer \<open>try\<close> of the body; when the conversion of the key throws,
  the handler of that \<open>try\<close> evaluates \<open>${key}\<close> again for its message and throws
  itself, so the exception leaves the loop. Every other exception of the body is
  caught: the inner \<open>try\<close> holds the parse and the push, the outer one the read of the
  blob, and their handlers only log, so the list comes back as it was.
\<close>

definition load_key ::
  "runtime \<Rightarrow> (string \<Rightarrow> bool) \<Rightarrow> chain \<Rightarrow> ProductivityRecord list \<Rightarrow> json
     \<Rightarrow> js_error + ProductivityRecord list" where
  "load_key rt ok ch list key =
     (case js_String rt key of
        None \<Rightarrow> Inl TypeError
      | Some name \<Rightarrow>
          (let k = ''record_'' @ name in
           case getData (ok k) ch k of
             Inl err \<Rightarrow> Inr list
           | Inr recordBytes \<Rightarrow>
               if length recordBytes > 0
               then (case JSON_parse rt recordBytes of
                       None \<Rightarrow> Inr list
                     | Some recordData \<Rightarrow>
                         (case make_record key recordData of
                            Inl err \<Rightarrow> Inr list
                          | Inr r \<Rightarrow> Inr (list @ [r])))
               else Inr list))"

fun for_keys ::
  "runtime \<Rightarrow> (string \<Rightarrow> bool) \<Rightarrow> chain \<Rightarrow> ProductivityRecord list \<Rightarrow> json list
     \<Rightarrow> js_error + ProductivityRecord list" where
  "for_keys rt ok ch list [] = Inr list"
| "for_keys rt ok ch list (key # keys) =
     (case load_key rt ok ch list key of
        Inl err \<Rightarrow> Inl err
      | Inr list' \<Rightarrow> for_keys rt ok ch list' keys)"

text \<open>
  \<open>list.sort((a, b) => b.timestamp - a.timestamp)\<close>, outside every inner \<open>try\<close>. On
  the empty list the comparator is never called; on any other list the result is the
  engine's.
\<close>

definition sort_records ::
  "runtime \<Rightarrow> ProductivityRecord list \<Rightarrow> js_error + ProductivityRecord list" where
  "sort_records rt list =
     (case list of
        [] \<Rightarrow> Inr []
      | r # rs \<Rightarrow> (case Array_sort rt list of None \<Rightarrow> Inl TypeError | Some l \<Rightarrow> Inr l))"

text \<open>
  The last two statements of the outer \<open>try\<close>: sort, then \<open>setRecords(list)\<close>. The
  result is the list handed to \<open>setRecords\<close>, or \<open>None\<close> when \<open>setRecords\<close> is not
  reached because the loop or the sort threw.
\<close>

definition finish_load ::
  "runtime \<Rightarrow> js_error + ProductivityRecord list \<Rightarrow> ProductivityRecord list option" where
  "finish_load rt looped =
     (case looped of
        Inl err \<Rightarrow> None
      | Inr list \<Rightarrow> (case sort_records rt list of Inl err \<Rightarrow> None | Inr l \<Rightarrow> Some l))"

text \<open>
  \<open>loadRecords\<close> gives the list handed to \<open>setRecords\<close>, or \<open>None\<close> when \<open>setRecords\<close>
  is not reached: no contract, or an exception caught by the outer handler, which only
  logs. The function itself never throws. \<open>contract\<close> says whether
  \<open>getContractReadOnly\<close> gave a contract, \<open>ok key\<close> whether the read of that key goes
  through.
\<close>

definition loadRecords ::
  "runtime \<Rightarrow> bool \<Rightarrow> (string \<Rightarrow> bool) \<Rightarrow> chain \<Rightarrow> ProductivityRecord list option" where
  "loadRecords rt contract ok ch =
     (if \<not> contract then None
      else case getData (ok ''record_keys'') ch ''record_keys'' of
        Inl err \<Rightarrow> None
      | Inr keysBytes \<Rightarrow>
          (case iterate (parse_keys rt keysBytes) of
             Inl err \<Rightarrow> None
           | Inr keys \<Rightarrow> finish_load rt (for_keys rt ok ch [] keys)))"

subsection \<open>The productivity score\<close>

text \<open>
  A JavaScript number: a finite value, the negative zero (\<open>Finite 0\<close> is the positive
  one), the two infinities, or \<open>NaN\<close>.
\<close>

datatype jsnum = Finite rat | NegZero | PosInf | NegInf | NaN

definition is_nan :: "jsnum \<Rightarrow> bool" where
  "is_nan a = (a = NaN)"

definition is_inf :: "jsnum \<Rightarrow> bool" where
  "is_inf a = (a = PosInf \<or> a = NegInf)"

definition is_zero :: "jsnum \<Rightarrow> bool" where
  "is_zero a = (a = Finite 0 \<or> a = NegZero)"

fun negative :: "jsnum \<Rightarrow> bool" where
  "negative (Finite q) = (q < 0)"
| "negative NegZero = True"
| "negative PosInf = False"
| "negative NegInf = True"
| "negative NaN = False"

fun magnitude :: "jsnum \<Rightarrow> rat" where
  "magnitude (Finite q) = q"
| "magnitude a = 0"

definition signed_inf :: "bool \<Rightarrow> jsnum" where
  "signed_inf neg = (if neg then NegInf else PosInf)"

definition signed_zero :: "bool \<Rightarrow> jsnum" where
  "signed_zero neg = (if neg then NegZero else Finite 0)"

text \<open>
  The operators \<open>/\<close>, \<open>*\<close> and \<open>-\<close> on numbers. The cases with a \<open>NaN\<close>, an infinity
  or a zero are exact and written out. Where both operands are finite and the exact
  result is not settled by a zero, the result is the double nearest to the exact value
  (or an infinity or a zero, on overflow and underflow): that rounding is the
  parameter \<open>fl\<close>.
\<close>

definition js_div :: "(rat \<Rightarrow> jsnum) \<Rightarrow> jsnum \<Rightarrow> jsnum \<Rightarrow> jsnum" where
  "js_div fl a b =
     (if is_nan a \<or> is_nan b then NaN
      else if is_inf a
        then (if is_inf b then NaN else signed_inf (negative a \<noteq> negative b))
      else if is_inf b then signed_zero (negative a \<noteq> negative b)
      else if is_zero b
        then (if is_zero a then NaN else signed_inf (negative a \<noteq> negative b))
      else if is_zero a then signed_zero (negative a \<noteq> negative b)
      else fl (magnitude a / magnitude b))"

definition js_mul :: "(rat \<Rightarrow> jsnum) \<Rightarrow> jsnum \<Rightarrow> jsnum \<Rightarrow> jsnum" where
  "js_mul fl a b =
     (if is_nan a \<or> is_nan b then NaN
      else if is_inf a
        then (if is_zero b then NaN else signed_inf (negative a \<noteq> negative b))
      else if is_inf b
        then (if is_zero a then NaN else signed_inf (negative a \<noteq> negative b))
      else if is_zero a \<or> is_zero b then signed_zero (negative a \<noteq> negative b)
      else fl (magnitude a * magnitude b))"

definition js_sub :: "(rat \<Rightarrow> jsnum) \<Rightarrow> jsnum \<Rightarrow> jsnum \<Rightarrow> jsnum" where
  "js_sub fl a b =
     (if is_nan a \<or> is_nan b then NaN
      else if is_inf a then (if b = a then NaN else a)
      else if is_inf b then signed_inf (b = PosInf)
      else if magnitude a - magnitude b = 0
        then signed_zero (a = NegZero \<and> b = Finite 0)
      else fl (magnitude a - magnitude b))"

text \<open>
  \<open>Math.round\<close>: the nearest integer, halves towards plus infinity; the result is a
  negative zero for a negative argument that rounds to zero.
\<close>

definition Math_round :: "jsnum \<Rightarrow> jsnum" where
  "Math_round a =
     (case a of
        Finite q \<Rightarrow>
          (if \<lfloor>q + 1 / 2\<rfloor> = 0 then signed_zero (q < 0) else Finite (of_int \<lfloor>q + 1 / 2\<rfloor>))
      | _ \<Rightarrow> a)"

text \<open>
  The form state \<open>newRecordData\<close>. \<open>handleChange\<close> stores the text of an input, and the
  arithmetic operators convert it to a number; the three numeric fields hold that
  number.
\<close>

record newRecordData =
  workType_f :: string
  hoursWorked :: jsnum
  tasksCompleted :: jsnum
  distractions :: jsnum

text \<open>
  \<open>Math.round((tasksCompleted / hoursWorked) * 10 - (distractions * 0.5))\<close>
\<close>

definition productivityScore_calc :: "(rat \<Rightarrow> jsnum) \<Rightarrow> newRecordData \<Rightarrow> jsnum" where
  "productivityScore_calc fl f =
     Math_round
       (js_sub fl
          (js_mul fl (js_div fl (tasksCompleted f) (hoursWorked f)) (Finite 10))
          (js_mul fl (distractions f) (Finite (1 / 2))))"

text \<open>
  What \<open>JSON.stringify\<close> writes for a number, as \<open>JSON.parse\<close> reads it back: a value
  that is not finite is written as \<open>null\<close>.
\<close>

fun json_of_number :: "jsnum \<Rightarrow> json" where
  "json_of_number (Finite q) = JNum q"
| "json_of_number NegZero = JNum 0"
| "json_of_number a = JNull"

text \<open>
  The object \<open>recordData\<close> of \<open>submitRecord\<close> as it is stored: the placeholder
  ciphertext, \<open>Math.floor(Date.now() / 1000)\<close>, the account, the work type and the
  score.
\<close>

definition stored_recordData ::
  "(rat \<Rightarrow> jsnum) \<Rightarrow> newRecordData \<Rightarrow> string \<Rightarrow> int \<Rightarrow> string \<Rightarrow> json" where
  "stored_recordData fl f encrypted seconds account =
     JObj [(''data'', JStr encrypted),
           (''timestamp'', JNum (of_int seconds)),
           (''owner'', JStr account),
           (''workType'', JStr (workType_f f)),
           (''productivityScore'', json_of_number (productivityScore_calc fl f))]"

subsection \<open>submitRecord\<close>

text \<open>\<open>keys.push(recordId)\<close>: only an array has \<open>push\<close>.\<close>

fun push :: "json \<Rightarrow> json \<Rightarrow> js_error + json" where
  "push (JArr xs) x = Inr (JArr (xs @ [x]))"
| "push v x = Inl TypeError"

datatype outcome = NotConnected | Submitted | Failed js_error

text \<open>
  The input of one submission: whether a wallet provider is connected and
  \<open>getContractWithSigner\<close> gives a contract, the two parts of the record id
  (\<open>Date.now()\<close> in decimal and the random suffix), the serialised record
  \<open>JSON.stringify(recordData)\<close>, and whether each of the three contract calls goes
  through. The score inside the record is computed in double-precision arithmetic
  before the first call and is part of the serialised record here.
\<close>

record submission =
  provider :: bool
  signer_contract :: bool
  now_ms :: string
  random_suffix :: string
  recordData :: string
  write_record_ok :: bool
  read_keys_ok :: bool
  write_keys_ok :: bool

definition recordId :: "submission \<Rightarrow> string" where
  "recordId sub = now_ms sub @ ''-'' @ random_suffix sub"

definition submitRecord :: "runtime \<Rightarrow> submission \<Rightarrow> chain \<Rightarrow> chain \<times> outcome" where
  "submitRecord rt sub ch =
     (if \<not> provider sub then (ch, NotConnected)
      else if \<not> signer_contract sub then (ch, Failed NoContract)
      else case setData (write_record_ok sub) ch (''record_'' @ recordId sub) (recordData sub) of
        Inl err \<Rightarrow> (ch, Failed err)
      | Inr ch1 \<Rightarrow>
          (case getData (read_keys_ok sub) ch1 ''record_keys'' of
             Inl err \<Rightarrow> (ch1, Failed err)
           | Inr keysBytes \<Rightarrow>
               (case push (parse_keys rt keysBytes) (JStr (recordId sub)) of
                  Inl err \<Rightarrow> (ch1, Failed err)
                | Inr keys \<Rightarrow>
                    (case setData (write_keys_ok sub) ch1 ''record_keys'' (JSON_stringify rt keys) of
                       Inl err \<Rightarrow> (ch1, Failed err)
                     | Inr ch2 \<Rightarrow> (ch2, Submitted)))))"

section \<open>Notions used to state the properties\<close>

text \<open>The ids announced by \<open>MetricSubmitted\<close> events, in the order of emission.\<close>

fun submitted_ids :: "event list \<Rightarrow> uint256 list" where
  "submitted_ids [] = []"
| "submitted_ids (MetricSubmitted i ts # evs) = i # submitted_ids evs"
| "submitted_ids (ev # evs) = submitted_ids evs"

text \<open>How often a sequence of flag values goes from \<open>False\<close> to \<open>True\<close>.\<close>

fun rises :: "bool list \<Rightarrow> nat" where
  "rises (a # b # xs) = (if \<not> a \<and> b then 1 else 0) + rises (b # xs)"
| "rises xs = 0"

section \<open>Concrete inputs\<close>

text \<open>
  A stand-in for the library and the built-ins: every request gets the id 7, every
  signature check passes, a handle is initialized when it is not zero, the encryption
  of \<open>v\<close> has the handle \<open>v + 1\<close>, and the hash of a string is its length plus one.
\<close>

definition demo_env :: env where
  "demo_env =
     \<lparr>block_timestamp = 1700000000,
      FHE_toBytes32 = (\<lambda>h. h),
      FHE_requestDecryption = (\<lambda>cs sel. Some 7),
      FHE_checkSignatures = (\<lambda>r ct pf. True),
      FHE_isInitialized = (\<lambda>h. h \<noteq> 0),
      FHE_asEuint32 = (\<lambda>v. ucast v + 1),
      FHE_add = (\<lambda>a b. a + b - 1),
      keccak256 = (\<lambda>c. of_nat (length c) + 1),
      abi_decode_uint256_array = (\<lambda>bs. Some (map ucast bs)),
      abi_decode_uint32 = (\<lambda>bs. case bs of [] \<Rightarrow> None | b # _ \<Rightarrow> Some (ucast b))\<rparr>"

text \<open>The same library at its next request, which gets the id 8.\<close>

definition demo_env8 :: env where
  "demo_env8 = demo_env\<lparr>FHE_requestDecryption := (\<lambda>cs sel. Some 8)\<rparr>"

text \<open>
  The storage after one metric was submitted and its decryption requested
  (\<open>pending1\<close>), and after the callback for that request (\<open>revealed1\<close>).
\<close>

definition pending1 :: storage where
  "pending1 =
     \<lparr>metricCount = 1,
      encryptedMetrics = (\<lambda>_. zero_EncryptedMetric)
        (1 := \<lparr>id_em = 1, encryptedOutput = 11, encryptedHours = 12, encryptedTasks = 13,
               timestamp = 1700000000\<rparr>),
      revealedMetrics = (\<lambda>_. zero_RevealedMetric)
        (1 := \<lparr>output_rm = 0, hours = 0, tasks = 0, revealed = False\<rparr>),
      encryptedTaskCounters = (\<lambda>_. 0),
      taskCategories = [],
      requestToMetricId = (\<lambda>_. 0)(7 := 1),
      requestToCategoryHash = (\<lambda>_. 0)\<rparr>"

definition revealed1 :: storage where
  "revealed1 =
     pending1\<lparr>revealedMetrics := (\<lambda>_. zero_RevealedMetric)
                 (1 := \<lparr>output_rm = 10, hours = 20, tasks = 30, revealed = True\<rparr>),
              encryptedTaskCounters := (\<lambda>_. 0)(''TaskCategory'' := 2),
              taskCategories := [''TaskCategory'']\<rparr>"

text \<open>\<open>revealed1\<close> after a decryption of the category counter was requested.\<close>

definition counted1 :: storage where
  "counted1 = revealed1\<lparr>requestToCategoryHash := (\<lambda>_. 0)(8 := 13)\<rparr>"

definition demo_runtime :: runtime where
  "demo_runtime =
     \<lparr>JSON_parse = (\<lambda>b. if b = ''[1,2]'' then Some (JArr [JNum 1, JNum 2])
                         else if b = ''5'' then Some (JNum 5) else None),
      JSON_stringify = (\<lambda>v. if v = JArr [JStr ''1700000000000-k3j9x2a''] then ''[k]'' else ''?''),
      js_String = (\<lambda>v. if v = JNum 1 then Some ''1'' else if v = JNum 2 then Some ''2''
                        else None),
      Array_sort = (\<lambda>l. Some l)\<rparr>"

text \<open>
  An index of two keys whose first record is not JSON, and an index that is not JSON
  itself.
\<close>

definition demo_chain :: chain where
  "demo_chain =
     (\<lambda>_. [])(''record_keys'' := ''[1,2]'', ''record_1'' := ''{oops'', ''record_2'' := ''5'')"

definition broken_index_chain :: chain where
  "broken_index_chain = (\<lambda>_. [])(''record_keys'' := ''{oops'')"

text \<open>The form with 0 hours worked, 5 tasks completed and 2 distractions.\<close>

definition zero_hours :: newRecordData where
  "zero_hours =
     \<lparr>workType_f = ''remote'', hoursWorked = Finite 0, tasksCompleted = Finite 5,
      distractions = Finite 2\<rparr>"

definition demo_submission :: submission where
  "demo_submission =
     \<lparr>provider = True, signer_contract = True, now_ms = ''1700000000000'',
      random_suffix = ''k3j9x2a'', recordData = ''{}'',
      write_record_ok = True, read_keys_ok = True, write_keys_ok = True\<rparr>"

section \<open>Properties of the contract\<close>

subsection \<open>Checked increment\<close>

lemma unat_succ: "(x::uint256) \<noteq> - 1 \<Longrightarrow> unat (x + 1) = Suc (unat x)"
  using unatSuc [of x] by (simp add: add.commute eq_neg_iff_add_eq_0)

lemma succ_not_le: "(x::uint256) \<noteq> - 1 \<Longrightarrow> m \<le> x \<Longrightarrow> m \<noteq> x + 1"
  by (auto simp: word_le_nat_alt unat_succ)

lemma le_succ: "(x::uint256) \<noteq> - 1 \<Longrightarrow> m \<le> x \<Longrightarrow> m \<le> x + 1"
  by (auto simp: word_le_nat_alt unat_succ)

lemmas exec_defs = submitEncryptedMetric_def requestMetricDecryption_def
  handleMetricDecryption_def requestCategoryDecryption_def handleCategoryDecryption_def

subsection \<open>Traces\<close>

lemma final_Cons: "final s ((e, c) # cs) = final (fst (transact e s c)) cs"
proof -
  have "trace t cs \<noteq> []" for t by (cases cs) auto
  then show ?thesis by (simp add: final_def)
qed

lemma final_in_trace: "final s cs \<in> set (trace s cs)"
proof -
  have "trace s cs \<noteq> []" by (cases cs) auto
  then show ?thesis by (simp add: final_def)
qed

subsection \<open>Evaluation on the concrete inputs\<close>

lemma reach_pending1:
  "final deployed [(demo_env, SubmitEncryptedMetric 11 12 13),
                   (demo_env, RequestMetricDecryption 1)] = pending1"
  by (simp add: final_def transact_def exec_defs Let_def deployed_def demo_env_def pending1_def
        zero_RevealedMetric_def)

lemma handle_pending1:
  "handleMetricDecryption demo_env pending1 7 [10, 20, 30] [] =
     Inr (revealed1, [MetricRevealed 1])"
  by (simp add: exec_defs Let_def demo_env_def pending1_def revealed1_def zero_RevealedMetric_def)

lemma handle_revealed1:
  "handleMetricDecryption demo_env revealed1 7 [10, 20, 30] [] = Inl AlreadyRevealed"
  by (simp add: exec_defs Let_def demo_env_def pending1_def revealed1_def)


lemma handle_category_counted1:
  "handleCategoryDecryption demo_env counted1 8 [1] [] =
     Inr (counted1, [CategoryCountDecrypted ''TaskCategory'' 1])"
  by (simp add: exec_defs Let_def demo_env_def pending1_def revealed1_def counted1_def)

subsection \<open>The revealed flag\<close>

lemma exec_stored:
  "exec e s c = Inr (s', evs) \<Longrightarrow> m \<le> metricCount s \<Longrightarrow> m \<le> metricCount s'"
  by (cases c)
     (auto simp: exec_defs Let_def le_succ split: if_splits option.splits sum.splits)

lemma transact_stored:
  "m \<le> metricCount s \<Longrightarrow> m \<le> metricCount (fst (transact e s c))"
  using exec_stored [of e s c _ _ m]
  by (auto simp: transact_def split: sum.splits)

lemma exec_revealed_mono:
  "exec e s c = Inr (s', evs) \<Longrightarrow> m \<le> metricCount s \<Longrightarrow>
     revealed (revealedMetrics s m) \<Longrightarrow> revealed (revealedMetrics s' m)"
  by (cases c)
     (auto simp: exec_defs Let_def succ_not_le split: if_splits option.splits sum.splits)

lemma transact_revealed_mono:
  "m \<le> metricCount s \<Longrightarrow> revealed (revealedMetrics s m) \<Longrightarrow>
     revealed (revealedMetrics (fst (transact e s c)) m)"
  using exec_revealed_mono [of e s c _ _ m]
  by (auto simp: transact_def split: sum.splits)

lemma rises_trace_Cons:
  "rises (a # map f (trace t cs)) =
     (if \<not> a \<and> f t then 1 else 0) + rises (map f (trace t cs))"
  by (cases cs) auto

lemma rises_revealed_zero:
  "m \<le> metricCount s \<Longrightarrow> revealed (revealedMetrics s m) \<Longrightarrow>
     rises (map (\<lambda>t. revealed (revealedMetrics t m)) (trace s cs)) = 0"
proof (induction cs arbitrary: s)
  case Nil
  then show ?case by simp
next
  case (Cons ec cs)
  obtain e c where ec: "ec = (e, c)" by (cases ec)
  show ?case
    using Cons.IH [of "fst (transact e s c)"] Cons.prems
      transact_revealed_mono [of m s e c] transact_stored [of m s e c]
    by (simp add: ec rises_trace_Cons)
qed

lemma rises_revealed_le_1:
  "m \<le> metricCount s \<Longrightarrow>
     rises (map (\<lambda>t. revealed (revealedMetrics t m)) (trace s cs)) \<le> 1"
proof (induction cs arbitrary: s)
  case Nil
  then show ?case by simp
next
  case (Cons ec cs)
  obtain e c where ec: "ec = (e, c)" by (cases ec)
  let ?t = "fst (transact e s c)"
  have st: "m \<le> metricCount ?t" using Cons.prems by (rule transact_stored)
  show ?case
  proof (cases "revealed (revealedMetrics ?t m)")
    case True
    with rises_revealed_zero [OF st, of cs] show ?thesis
      by (simp add: ec rises_trace_Cons)
  next
    case False
    with Cons.IH [OF st] show ?thesis
      by (simp add: ec rises_trace_Cons)
  qed
qed

lemma exec_only_handle:
  "exec e s c = Inr (s', evs) \<Longrightarrow> \<not> revealed (revealedMetrics s m) \<Longrightarrow>
     revealed (revealedMetrics s' m) \<Longrightarrow>
     \<exists>rid ct pf. c = HandleMetricDecryption rid ct pf \<and> requestToMetricId s rid = m"
  by (cases c)
     (auto simp: exec_defs Let_def split: if_splits option.splits sum.splits)

lemma handle_already_revealed:
  "requestToMetricId s rid \<noteq> 0 \<Longrightarrow>
   revealed (revealedMetrics s (requestToMetricId s rid)) \<Longrightarrow>
     handleMetricDecryption e s rid ct pf = Inl AlreadyRevealed \<and>
     transact e s (HandleMetricDecryption rid ct pf) = (s, [])"
  by (simp add: handleMetricDecryption_def transact_def)

text \<open>
  For a metric that has been submitted (\<open>m \<le> metricCount\<close>), the revealed flag
  goes from false to true at most once along any sequence of transactions; a
  transaction that turns a flag from false to true is a call of
  \<open>handleMetricDecryption\<close> routed to that metric; and a callback routed to a metric
  whose flag is already true reverts with "Already revealed", so the storage stays as
  it was.
\<close>

lemma revealed_flag_of_submitted_metric:
  "(m \<le> metricCount s \<longrightarrow>
      rises (map (\<lambda>t. revealed (revealedMetrics t m)) (trace s cs)) \<le> 1) \<and>
   (exec e s c = Inr (s', evs) \<and> \<not> revealed (revealedMetrics s m) \<and>
    revealed (revealedMetrics s' m) \<longrightarrow>
      (\<exists>rid ct pf. c = HandleMetricDecryption rid ct pf \<and> requestToMetricId s rid = m)) \<and>
   (requestToMetricId u r \<noteq> 0 \<and> revealed (revealedMetrics u (requestToMetricId u r)) \<longrightarrow>
      handleMetricDecryption e2 u r ct pf = Inl AlreadyRevealed \<and>
      transact e2 u (HandleMetricDecryption r ct pf) = (u, []))"
proof -
  have p1: "m \<le> metricCount s \<longrightarrow>
      rises (map (\<lambda>t. revealed (revealedMetrics t m)) (trace s cs)) \<le> 1"
    using rises_revealed_le_1 [of m s cs] by blast
  have p2: "exec e s c = Inr (s', evs) \<and> \<not> revealed (revealedMetrics s m) \<and>
    revealed (revealedMetrics s' m) \<longrightarrow>
      (\<exists>rid ct pf. c = HandleMetricDecryption rid ct pf \<and> requestToMetricId s rid = m)"
    using exec_only_handle [of e s c s' evs m] by blast
  have p3: "requestToMetricId u r \<noteq> 0 \<and>
    revealed (revealedMetrics u (requestToMetricId u r)) \<longrightarrow>
      handleMetricDecryption e2 u r ct pf = Inl AlreadyRevealed \<and>
      transact e2 u (HandleMetricDecryption r ct pf) = (u, [])"
    using handle_already_revealed [of u r e2 ct pf] by blast
  from p1 p2 p3 show ?thesis by blast
qed

subsection \<open>Unknown inputs of the decryption requests\<close>

lemma requestCategoryDecryption_unknown:
  "\<not> FHE_isInitialized e (encryptedTaskCounters s category) \<Longrightarrow>
     requestCategoryDecryption e s category = Inl CategoryUnknown"
  by (simp add: requestCategoryDecryption_def)

lemma requestMetricDecryption_no_guard:
  "\<not> revealed (revealedMetrics s metricId) \<Longrightarrow>
   FHE_requestDecryption e
     [FHE_toBytes32 e (encryptedOutput (encryptedMetrics s metricId)),
      FHE_toBytes32 e (encryptedHours (encryptedMetrics s metricId)),
      FHE_toBytes32 e (encryptedTasks (encryptedMetrics s metricId))]
     HandleMetricDecryptionSelector = Some reqId \<Longrightarrow>
     requestMetricDecryption e s metricId =
       Inr (s\<lparr>requestToMetricId := (requestToMetricId s)(reqId := metricId)\<rparr>,
            [MetricDecryptionRequested metricId])"
  by (simp add: requestMetricDecryption_def)

text \<open>
  C2. On the freshly deployed contract no metric is stored, and the metric id 5 reads
  as the zero struct. \<open>requestMetricDecryption\<close> has no guard for that: it hands three
  zero handles to the library and, when the library returns the request id 7, stores
  the binding of 7 to 5 and emits \<open>MetricDecryptionRequested\<close>.
\<close>

theorem requestMetricDecryption_unknown_id:
  "metricCount deployed = 0 \<and>
   encryptedMetrics deployed 5 = zero_EncryptedMetric \<and>
   requestMetricDecryption demo_env deployed 5 =
     Inr (deployed\<lparr>requestToMetricId := (\<lambda>_. 0)(7 := 5)\<rparr>, [MetricDecryptionRequested 5])"
  by (simp add: requestMetricDecryption_def deployed_def demo_env_def zero_RevealedMetric_def)

text \<open>
  What follows from the missing guard: a request and a callback for the id 1 before any
  metric exists set its flag; the first submission then creates metric 1 and resets the
  flag; a second request and callback set it again.
\<close>

lemma unknown_id_revealed_then_reset:
  "map (\<lambda>t. revealed (revealedMetrics t 1))
     (trace deployed
        [(demo_env, RequestMetricDecryption 1),
         (demo_env, HandleMetricDecryption 7 [10, 20, 30] []),
         (demo_env, SubmitEncryptedMetric 11 12 13),
         (demo_env8, RequestMetricDecryption 1),
         (demo_env8, HandleMetricDecryption 8 [10, 20, 30] [])]) =
     [False, False, True, False, False, True]"
  by (simp add: transact_def exec_defs Let_def deployed_def demo_env_def demo_env8_def
        zero_RevealedMetric_def zero_EncryptedMetric_def)

text \<open>
  C1. On the freshly deployed contract, with the library returning the request ids 7
  and then 8: \<open>requestMetricDecryption(1)\<close>, the callback for request 7,
  \<open>submitEncryptedMetric\<close> (which creates metric 1), \<open>requestMetricDecryption(1)\<close>
  and the callback for request 8. Both callbacks succeed, and the revealed flag of
  metric 1 goes from false to true twice.
\<close>

theorem revealed_flag_rises_twice:
  "rises (map (\<lambda>t. revealed (revealedMetrics t 1))
     (trace deployed
        [(demo_env, RequestMetricDecryption 1),
         (demo_env, HandleMetricDecryption 7 [10, 20, 30] []),
         (demo_env, SubmitEncryptedMetric 11 12 13),
         (demo_env8, RequestMetricDecryption 1),
         (demo_env8, HandleMetricDecryption 8 [10, 20, 30] [])])) = 2"
  by (subst unknown_id_revealed_then_reset) simp

subsection \<open>Metric ids\<close>

lemma submitted_ids_append: "submitted_ids (xs @ ys) = submitted_ids xs @ submitted_ids ys"
  by (induction xs rule: submitted_ids.induct) auto

lemma submit_ok:
  "metricCount s \<noteq> - 1 \<Longrightarrow>
     \<exists>s'. submitEncryptedMetric e s a b c =
             Inr (s', [MetricSubmitted (metricCount s + 1) (block_timestamp e)]) \<and>
          metricCount s' = metricCount s + 1 \<and>
          unat (metricCount s') = Suc (unat (metricCount s)) \<and>
          encryptedMetrics s' (metricCount s + 1) =
            \<lparr>id_em = metricCount s + 1, encryptedOutput = a, encryptedHours = b,
             encryptedTasks = c, timestamp = block_timestamp e\<rparr> \<and>
          revealedMetrics s' (metricCount s + 1) =
            \<lparr>output_rm = 0, hours = 0, tasks = 0, revealed = False\<rparr>"
  by (simp add: submitEncryptedMetric_def Let_def unat_succ)

lemma submit_overflow:
  "metricCount s = - 1 \<Longrightarrow> submitEncryptedMetric e s a b c = Inl ArithmeticOverflow"
  by (simp add: submitEncryptedMetric_def)

lemma submit_twice:
  assumes "metricCount s \<noteq> - 1" "metricCount s + 1 \<noteq> - 1"
  shows "\<exists>s' s'' i j ts ts'.
           submitEncryptedMetric e s a b c = Inr (s', [MetricSubmitted i ts]) \<and>
           submitEncryptedMetric e' s' a' b' c' = Inr (s'', [MetricSubmitted j ts']) \<and>
           j = i + 1 \<and> unat j = Suc (unat i)"
proof -
  from submit_ok [OF assms(1), of e a b c] obtain s' where
    s': "submitEncryptedMetric e s a b c =
           Inr (s', [MetricSubmitted (metricCount s + 1) (block_timestamp e)])"
      "metricCount s' = metricCount s + 1"
    by blast
  from assms(2) s'(2) have ne: "metricCount s' \<noteq> - 1" by simp
  from submit_ok [OF ne, of e' a' b' c'] obtain s'' where
    s'': "submitEncryptedMetric e' s' a' b' c' =
       Inr (s'', [MetricSubmitted (metricCount s' + 1) (block_timestamp e')])"
    by blast
  have j: "metricCount s' + 1 = (metricCount s + 1) + 1"
    by (simp only: s'(2))
  have uj: "unat (metricCount s' + 1) = Suc (unat (metricCount s + 1))"
    using unat_succ [OF ne] by (simp only: s'(2))
  from s'(1) s'' j uj show ?thesis by blast
qed

lemma transact_ids:
  "map unat (submitted_ids (snd (transact e s c))) =
     [Suc (unat (metricCount s)) ..< Suc (unat (metricCount (fst (transact e s c))))]"
  by (cases c)
     (auto simp: transact_def exec_defs Let_def unat_succ
           split: if_splits option.splits sum.splits)

lemma transact_count_le:
  "unat (metricCount s) \<le> unat (metricCount (fst (transact e s c)))"
  by (cases c)
     (auto simp: transact_def exec_defs Let_def unat_succ
           split: if_splits option.splits sum.splits)

lemma final_count_le: "unat (metricCount s) \<le> unat (metricCount (final s cs))"
proof (induction cs arbitrary: s)
  case Nil
  then show ?case by (simp add: final_def)
next
  case (Cons ec cs)
  obtain e c where ec: "ec = (e, c)" by (cases ec)
  show ?case
    using Cons.IH [of "fst (transact e s c)"] transact_count_le [of s e c]
    by (simp add: ec final_Cons)
qed

lemma upt_split: "a \<le> b \<Longrightarrow> b \<le> c \<Longrightarrow> [a ..< b] @ [b ..< c] = [a ..< c]"
  by (metis le_Suc_ex upt_add_eq_append)

lemma emitted_ids:
  "map unat (submitted_ids (emitted s cs)) =
     [Suc (unat (metricCount s)) ..< Suc (unat (metricCount (final s cs)))]"
proof (induction cs arbitrary: s)
  case Nil
  then show ?case by (simp add: final_def)
next
  case (Cons ec cs)
  obtain e c where ec: "ec = (e, c)" by (cases ec)
  let ?s1 = "fst (transact e s c)"
  have "map unat (submitted_ids (emitted s (ec # cs))) =
          [Suc (unat (metricCount s)) ..< Suc (unat (metricCount ?s1))] @
          [Suc (unat (metricCount ?s1)) ..< Suc (unat (metricCount (final ?s1 cs)))]"
    using Cons.IH [of ?s1] transact_ids [of e s c]
    by (simp add: ec submitted_ids_append)
  also have "\<dots> = [Suc (unat (metricCount s)) ..< Suc (unat (metricCount (final ?s1 cs)))]"
    by (rule upt_split) (use transact_count_le [of s e c] final_count_le [of ?s1 cs] in auto)
  finally show ?case by (simp add: ec final_Cons)
qed

text \<open>
  C3. While the counter has not reached its maximum, \<open>submitEncryptedMetric\<close> succeeds,
  stores the new metric under \<open>metricCount + 1\<close> with that id in its id field and with
  the revealed flag false, and announces that id. Two successive submissions get ids
  that differ by exactly one. Over any sequence of transactions the announced ids are
  the consecutive numbers from the old count plus one up to the new count, hence
  strictly increasing.
\<close>

theorem submit_ids_increasing:
  "(metricCount s \<noteq> - 1 \<longrightarrow>
      (\<exists>s'. submitEncryptedMetric e s a b c =
               Inr (s', [MetricSubmitted (metricCount s + 1) (block_timestamp e)]) \<and>
            metricCount s' = metricCount s + 1 \<and>
            unat (metricCount s') = Suc (unat (metricCount s)) \<and>
            encryptedMetrics s' (metricCount s + 1) =
              \<lparr>id_em = metricCount s + 1, encryptedOutput = a, encryptedHours = b,
               encryptedTasks = c, timestamp = block_timestamp e\<rparr> \<and>
            revealedMetrics s' (metricCount s + 1) =
              \<lparr>output_rm = 0, hours = 0, tasks = 0, revealed = False\<rparr>)) \<and>
   (metricCount s \<noteq> - 1 \<and> metricCount s + 1 \<noteq> - 1 \<longrightarrow>
      (\<exists>s' s'' i j ts ts'.
          submitEncryptedMetric e s a b c = Inr (s', [MetricSubmitted i ts]) \<and>
          submitEncryptedMetric e' s' a' b' c' = Inr (s'', [MetricSubmitted j ts']) \<and>
          j = i + 1 \<and> unat j = Suc (unat i))) \<and>
   map unat (submitted_ids (emitted t cs)) =
     [Suc (unat (metricCount t)) ..< Suc (unat (metricCount (final t cs)))] \<and>
   sorted_wrt (<) (map unat (submitted_ids (emitted t cs)))"
proof -
  have p1: "metricCount s \<noteq> - 1 \<longrightarrow>
      (\<exists>s'. submitEncryptedMetric e s a b c =
               Inr (s', [MetricSubmitted (metricCount s + 1) (block_timestamp e)]) \<and>
            metricCount s' = metricCount s + 1 \<and>
            unat (metricCount s') = Suc (unat (metricCount s)) \<and>
            encryptedMetrics s' (metricCount s + 1) =
              \<lparr>id_em = metricCount s + 1, encryptedOutput = a, encryptedHours = b,
               encryptedTasks = c, timestamp = block_timestamp e\<rparr> \<and>
            revealedMetrics s' (metricCount s + 1) =
              \<lparr>output_rm = 0, hours = 0, tasks = 0, revealed = False\<rparr>)"
    using submit_ok [of s e a b c] by blast
  have p2: "metricCount s \<noteq> - 1 \<and> metricCount s + 1 \<noteq> - 1 \<longrightarrow>
      (\<exists>s' s'' i j ts ts'.
          submitEncryptedMetric e s a b c = Inr (s', [MetricSubmitted i ts]) \<and>
          submitEncryptedMetric e' s' a' b' c' = Inr (s'', [MetricSubmitted j ts']) \<and>
          j = i + 1 \<and> unat j = Suc (unat i))"
    using submit_twice [of s e a b c e' a' b' c'] by blast
  have p3: "map unat (submitted_ids (emitted t cs)) =
     [Suc (unat (metricCount t)) ..< Suc (unat (metricCount (final t cs)))]"
    by (rule emitted_ids)
  have p4: "sorted_wrt (<) (map unat (submitted_ids (emitted t cs)))"
    by (simp only: p3 sorted_wrt_upt)
  from p1 p2 p3 p4 show ?thesis by (intro conjI)
qed

theorem submit_ids_increasing_witness:
  "metricCount pending1 \<noteq> - 1 \<and> metricCount pending1 + 1 \<noteq> - 1 \<and>
   (\<exists>s' s'' i j ts ts'.
      submitEncryptedMetric demo_env pending1 21 22 23 = Inr (s', [MetricSubmitted i ts]) \<and>
      submitEncryptedMetric demo_env s' 31 32 33 = Inr (s'', [MetricSubmitted j ts']) \<and>
      j = i + 1 \<and> unat j = Suc (unat i)) \<and>
   (\<exists>s'. submitEncryptedMetric demo_env pending1 21 22 23 =
           Inr (s', [MetricSubmitted 2 1700000000]) \<and> metricCount s' = 2 \<and>
         \<not> revealed (revealedMetrics s' 2))"
proof -
  have h1: "metricCount pending1 \<noteq> - 1" by (simp add: pending1_def)
  have h2: "metricCount pending1 + 1 \<noteq> - 1" by (simp add: pending1_def)
  have v: "metricCount pending1 + 1 = 2" "block_timestamp demo_env = 1700000000"
    by (simp_all add: pending1_def demo_env_def)
  from submit_ids_increasing [where s = pending1 and e = demo_env and a = 21 and b = 22
      and c = 23 and e' = demo_env and a' = 31 and b' = 32 and c' = 33] h1 h2
  have "(\<exists>s'. submitEncryptedMetric demo_env pending1 21 22 23 =
               Inr (s', [MetricSubmitted (metricCount pending1 + 1) (block_timestamp demo_env)]) \<and>
            metricCount s' = metricCount pending1 + 1 \<and>
            unat (metricCount s') = Suc (unat (metricCount pending1)) \<and>
            encryptedMetrics s' (metricCount pending1 + 1) =
              \<lparr>id_em = metricCount pending1 + 1, encryptedOutput = 21, encryptedHours = 22,
               encryptedTasks = 23, timestamp = block_timestamp demo_env\<rparr> \<and>
            revealedMetrics s' (metricCount pending1 + 1) =
              \<lparr>output_rm = 0, hours = 0, tasks = 0, revealed = False\<rparr>)"
    and "(\<exists>s' s'' i j ts ts'.
      submitEncryptedMetric demo_env pending1 21 22 23 = Inr (s', [MetricSubmitted i ts]) \<and>
      submitEncryptedMetric demo_env s' 31 32 33 = Inr (s'', [MetricSubmitted j ts']) \<and>
      j = i + 1 \<and> unat j = Suc (unat i))"
    by blast+
  with h1 h2 show ?thesis unfolding v by force
qed

subsection \<open>Stored metrics\<close>

lemma exec_encryptedMetrics:
  "exec e s c = Inr (s', evs) \<Longrightarrow> m \<le> metricCount s \<Longrightarrow>
     encryptedMetrics s' m = encryptedMetrics s m"
  by (cases c)
     (auto simp: exec_defs Let_def succ_not_le split: if_splits option.splits sum.splits)

lemma transact_encryptedMetrics:
  "m \<le> metricCount s \<Longrightarrow>
     encryptedMetrics (fst (transact e s c)) m = encryptedMetrics s m"
  using exec_encryptedMetrics [of e s c _ _ m]
  by (auto simp: transact_def split: sum.splits)

lemma trace_encryptedMetrics:
  "m \<le> metricCount s \<Longrightarrow> t \<in> set (trace s cs) \<Longrightarrow>
     encryptedMetrics t m = encryptedMetrics s m"
proof (induction cs arbitrary: s)
  case Nil
  then show ?case by simp
next
  case (Cons ec cs)
  obtain e c where ec: "ec = (e, c)" by (cases ec)
  from Cons.prems(2) consider "t = s" | "t \<in> set (trace (fst (transact e s c)) cs)"
    by (auto simp: ec)
  then show ?case
  proof cases
    case 1
    then show ?thesis by simp
  next
    case 2
    with Cons.IH [of "fst (transact e s c)"] transact_stored [OF Cons.prems(1), of e c]
      transact_encryptedMetrics [OF Cons.prems(1), of e c]
    show ?thesis by simp
  qed
qed

text \<open>
  C4. An \<open>EncryptedMetric\<close> that has been stored (its id is at most \<open>metricCount\<close>) is
  never modified: a successful call of any of the five operations leaves
  \<open>encryptedMetrics[id]\<close> as it was, and so does every sequence of transactions.
\<close>

theorem encryptedMetric_immutable:
  "(m \<le> metricCount s \<and> exec e s c = Inr (s', evs) \<longrightarrow>
      encryptedMetrics s' m = encryptedMetrics s m) \<and>
   (m \<le> metricCount s \<and> t \<in> set (trace s cs) \<longrightarrow>
      encryptedMetrics t m = encryptedMetrics s m)"
  using exec_encryptedMetrics [of e s c s' evs m] trace_encryptedMetrics [of m s t cs]
  by blast

theorem encryptedMetric_immutable_witness:
  "1 \<le> metricCount pending1 \<and>
   exec demo_env pending1 (HandleMetricDecryption 7 [10, 20, 30] []) =
     Inr (revealed1, [MetricRevealed 1]) \<and>
   encryptedMetrics revealed1 1 = encryptedMetrics pending1 1 \<and>
   final pending1 [(demo_env, SubmitEncryptedMetric 21 22 23),
                   (demo_env, HandleMetricDecryption 7 [10, 20, 30] [])]
     \<in> set (trace pending1 [(demo_env, SubmitEncryptedMetric 21 22 23),
                             (demo_env, HandleMetricDecryption 7 [10, 20, 30] [])]) \<and>
   encryptedMetrics
     (final pending1 [(demo_env, SubmitEncryptedMetric 21 22 23),
                      (demo_env, HandleMetricDecryption 7 [10, 20, 30] [])]) 1 =
     \<lparr>id_em = 1, encryptedOutput = 11, encryptedHours = 12, encryptedTasks = 13,
      timestamp = 1700000000\<rparr>"
proof -
  let ?cs = "[(demo_env, SubmitEncryptedMetric 21 22 23),
              (demo_env, HandleMetricDecryption 7 [10, 20, 30] [])]"
  have h1: "1 \<le> metricCount pending1" by (simp add: pending1_def)
  have h2: "exec demo_env pending1 (HandleMetricDecryption 7 [10, 20, 30] []) =
     Inr (revealed1, [MetricRevealed 1])" by (simp add: handle_pending1)
  have h3: "final pending1 ?cs \<in> set (trace pending1 ?cs)" by (rule final_in_trace)
  have v: "encryptedMetrics pending1 1 =
     \<lparr>id_em = 1, encryptedOutput = 11, encryptedHours = 12, encryptedTasks = 13,
      timestamp = 1700000000\<rparr>" by (simp add: pending1_def)
  from encryptedMetric_immutable [where m = 1 and s = pending1 and e = demo_env
      and c = "HandleMetricDecryption 7 [10, 20, 30] []" and s' = revealed1
      and evs = "[MetricRevealed 1]" and t = "final pending1 ?cs" and cs = ?cs] h1 h2 h3
  have "encryptedMetrics revealed1 1 = encryptedMetrics pending1 1"
    and "encryptedMetrics (final pending1 ?cs) 1 = encryptedMetrics pending1 1"
    by blast+
  with h1 h2 h3 v show ?thesis by simp
qed

subsection \<open>Request-correlation maps\<close>








subsection \<open>The category counter\<close>

lemma handleMetricDecryption_effect:
  "handleMetricDecryption e s requestId cleartexts pf = Inr (s', evs) \<Longrightarrow>
     (\<exists>results. abi_decode_uint256_array e cleartexts = Some results \<and>
        3 \<le> length results \<and>
        revealedMetrics s' (requestToMetricId s requestId) =
          \<lparr>output_rm = results ! 0, hours = results ! 1, tasks = results ! 2,
           revealed = True\<rparr>) \<and>
     encryptedTaskCounters s' ''TaskCategory'' =
       FHE_add e (if FHE_isInitialized e (encryptedTaskCounters s ''TaskCategory'')
                  then encryptedTaskCounters s ''TaskCategory'' else FHE_asEuint32 e 0)
                 (FHE_asEuint32 e 1) \<and>
     taskCategories s' =
       (if FHE_isInitialized e (encryptedTaskCounters s ''TaskCategory'')
        then taskCategories s else taskCategories s @ [''TaskCategory''])"
  by (auto simp: handleMetricDecryption_def Let_def split: if_splits option.splits)

lemma submit_keeps_counters:
  "submitEncryptedMetric e s a b c = Inr (s', evs) \<Longrightarrow>
     encryptedTaskCounters s' = encryptedTaskCounters s \<and> taskCategories s' = taskCategories s"
  by (auto simp: submitEncryptedMetric_def Let_def split: if_splits)

text \<open>
  C9. A successful call of \<open>handleMetricDecryption\<close> writes the three plaintexts with
  the flag set, and leaves the counter of "TaskCategory" at the homomorphic sum of an
  encrypted 1 and the old counter, or of an encrypted 1 and an encrypted 0 when the
  old counter was not initialized; in that case "TaskCategory" is appended to the
  category list, otherwise the list is unchanged. A successful submission changes
  neither the counters nor the list.
\<close>

theorem reveal_bumps_counter:
  "(handleMetricDecryption e s requestId cleartexts pf = Inr (s', evs) \<longrightarrow>
      (\<exists>results. abi_decode_uint256_array e cleartexts = Some results \<and>
         3 \<le> length results \<and>
         revealedMetrics s' (requestToMetricId s requestId) =
           \<lparr>output_rm = results ! 0, hours = results ! 1, tasks = results ! 2,
            revealed = True\<rparr>) \<and>
      encryptedTaskCounters s' ''TaskCategory'' =
        FHE_add e (if FHE_isInitialized e (encryptedTaskCounters s ''TaskCategory'')
                   then encryptedTaskCounters s ''TaskCategory'' else FHE_asEuint32 e 0)
                  (FHE_asEuint32 e 1) \<and>
      taskCategories s' =
        (if FHE_isInitialized e (encryptedTaskCounters s ''TaskCategory'')
         then taskCategories s else taskCategories s @ [''TaskCategory''])) \<and>
   (submitEncryptedMetric e2 u a b c = Inr (u', evs2) \<longrightarrow>
      encryptedTaskCounters u' = encryptedTaskCounters u \<and>
      taskCategories u' = taskCategories u)"
  using handleMetricDecryption_effect [of e s requestId cleartexts pf s' evs]
    submit_keeps_counters [of e2 u a b c u' evs2]
  by blast

theorem reveal_bumps_counter_witness:
  "handleMetricDecryption demo_env pending1 7 [10, 20, 30] [] =
     Inr (revealed1, [MetricRevealed 1]) \<and>
   \<not> FHE_isInitialized demo_env (encryptedTaskCounters pending1 ''TaskCategory'') \<and>
   encryptedTaskCounters revealed1 ''TaskCategory'' =
     FHE_add demo_env (FHE_asEuint32 demo_env 0) (FHE_asEuint32 demo_env 1) \<and>
   taskCategories revealed1 = taskCategories pending1 @ [''TaskCategory''] \<and>
   (\<exists>u'. submitEncryptedMetric demo_env pending1 21 22 23 =
           Inr (u', [MetricSubmitted 2 1700000000]) \<and>
         encryptedTaskCounters u' = encryptedTaskCounters pending1 \<and>
         taskCategories u' = [])"
proof -
  have h1: "handleMetricDecryption demo_env pending1 7 [10, 20, 30] [] =
     Inr (revealed1, [MetricRevealed 1])" by (rule handle_pending1)
  have h2: "\<not> FHE_isInitialized demo_env (encryptedTaskCounters pending1 ''TaskCategory'')"
    by (simp add: demo_env_def pending1_def)
  obtain u' where h3: "submitEncryptedMetric demo_env pending1 21 22 23 =
           Inr (u', [MetricSubmitted 2 1700000000])"
    by (simp add: submitEncryptedMetric_def Let_def pending1_def demo_env_def)
  have v: "taskCategories pending1 = []" by (simp add: pending1_def)
  from reveal_bumps_counter [where e = demo_env and s = pending1 and requestId = 7
      and cleartexts = "[10, 20, 30]" and pf = "[]" and s' = revealed1
      and evs = "[MetricRevealed 1]" and ?e2.0 = demo_env and u = pending1 and a = 21
      and b = 22 and c = 23 and u' = u' and ?evs2.0 = "[MetricSubmitted 2 1700000000]"]
    h1 h2 h3
  have "encryptedTaskCounters revealed1 ''TaskCategory'' =
     FHE_add demo_env (FHE_asEuint32 demo_env 0) (FHE_asEuint32 demo_env 1)"
    and "taskCategories revealed1 = taskCategories pending1 @ [''TaskCategory'']"
    and "encryptedTaskCounters u' = encryptedTaskCounters pending1"
    and "taskCategories u' = taskCategories pending1"
    by simp_all
  with h1 h2 h3 v show ?thesis by simp
qed

subsection \<open>The category callback\<close>

lemma handleCategoryDecryption_effect:
  "handleCategoryDecryption e s requestId cleartexts pf = Inr (s', evs) \<Longrightarrow>
     s' = s \<and>
     (\<exists>category count. evs = [CategoryCountDecrypted category count] \<and>
        abi_decode_uint32 e cleartexts = Some count \<and>
        categoryFromHash e (taskCategories s) (requestToCategoryHash s requestId) =
          Inr category)"
  by (auto simp: handleCategoryDecryption_def Let_def
           split: if_splits option.splits sum.splits)

text \<open>
  C10. A successful call of \<open>handleCategoryDecryption\<close> returns the storage it was
  given: \<open>revealedMetrics\<close>, \<open>encryptedMetrics\<close>, \<open>encryptedTaskCounters\<close>,
  \<open>taskCategories\<close>, \<open>metricCount\<close> and both request-correlation maps are unchanged.
  The decoded count appears only in the one event \<open>CategoryCountDecrypted\<close>, together
  with the listed category that has the requested hash.
\<close>

theorem handleCategoryDecryption_frame:
  "handleCategoryDecryption e s requestId cleartexts pf = Inr (s', evs) \<longrightarrow>
     s' = s \<and>
     revealedMetrics s' = revealedMetrics s \<and> encryptedMetrics s' = encryptedMetrics s \<and>
     encryptedTaskCounters s' = encryptedTaskCounters s \<and>
     taskCategories s' = taskCategories s \<and> metricCount s' = metricCount s \<and>
     requestToMetricId s' = requestToMetricId s \<and>
     requestToCategoryHash s' = requestToCategoryHash s \<and>
     (\<exists>category count. evs = [CategoryCountDecrypted category count] \<and>
        abi_decode_uint32 e cleartexts = Some count \<and>
        categoryFromHash e (taskCategories s) (requestToCategoryHash s requestId) =
          Inr category)"
  using handleCategoryDecryption_effect [of e s requestId cleartexts pf s' evs]
  by blast

theorem handleCategoryDecryption_frame_witness:
  "handleCategoryDecryption demo_env counted1 8 [1] [] =
     Inr (counted1, [CategoryCountDecrypted ''TaskCategory'' 1]) \<and>
   abi_decode_uint32 demo_env [1] = Some 1 \<and>
   categoryFromHash demo_env (taskCategories counted1) (requestToCategoryHash counted1 8) =
     Inr ''TaskCategory''"
proof -
  have h: "handleCategoryDecryption demo_env counted1 8 [1] [] =
     Inr (counted1, [CategoryCountDecrypted ''TaskCategory'' 1])"
    by (rule handle_category_counted1)
  from handleCategoryDecryption_frame [where e = demo_env and s = counted1
      and requestId = 8 and cleartexts = "[1]" and pf = "[]" and s' = counted1
      and evs = "[CategoryCountDecrypted ''TaskCategory'' 1]"] h
  have "\<exists>category count.
          [CategoryCountDecrypted ''TaskCategory'' 1] = [CategoryCountDecrypted category count] \<and>
          abi_decode_uint32 demo_env [1] = Some count \<and>
          categoryFromHash demo_env (taskCategories counted1)
            (requestToCategoryHash counted1 8) = Inr category"
    by blast
  with h show ?thesis by auto
qed

section \<open>Properties of the frontend\<close>

subsection \<open>loadRecords\<close>

lemma load_key_parse_failure:
  "js_String rt key = Some name \<Longrightarrow> ok (''record_'' @ name) \<Longrightarrow>
   JSON_parse rt (ch (''record_'' @ name)) = None \<Longrightarrow>
     load_key rt ok ch list key = Inr list"
  by (simp add: load_key_def Let_def getData_def)

lemma load_key_conversion_throws:
  "js_String rt key = None \<Longrightarrow> load_key rt ok ch list key = Inl TypeError"
  by (simp add: load_key_def)

lemma load_key_no_throw:
  "js_String rt key = Some name \<Longrightarrow> \<exists>l. load_key rt ok ch list key = Inr l"
  by (simp add: load_key_def Let_def getData_def split: sum.splits option.splits)

lemma for_keys_no_throw:
  "\<forall>key \<in> set keys. js_String rt key \<noteq> None \<Longrightarrow> \<exists>l. for_keys rt ok ch list keys = Inr l"
proof (induction keys arbitrary: list)
  case Nil
  then show ?case by simp
next
  case (Cons key keys)
  from Cons.prems obtain name where "js_String rt key = Some name" by auto
  from load_key_no_throw [OF this] obtain l where "load_key rt ok ch list key = Inr l"
    by blast
  with Cons.IH [of l] Cons.prems show ?case by simp
qed

lemma for_keys_append:
  "for_keys rt ok ch list (ks1 @ ks2) =
     (case for_keys rt ok ch list ks1 of Inl err \<Rightarrow> Inl err
      | Inr l \<Rightarrow> for_keys rt ok ch l ks2)"
  by (induction ks1 arbitrary: list) (auto split: sum.splits)

lemma for_keys_skip:
  assumes "js_String rt key = Some name" "ok (''record_'' @ name)"
    and "JSON_parse rt (ch (''record_'' @ name)) = None"
  shows "for_keys rt ok ch list (ks1 @ key # ks2) = for_keys rt ok ch list (ks1 @ ks2)"
  using assms load_key_parse_failure [of rt key name ok ch]
  by (simp add: for_keys_append split: sum.splits)

lemma loadRecords_keys_parse_failure:
  "contract \<Longrightarrow> ok ''record_keys'' \<Longrightarrow> JSON_parse rt (ch ''record_keys'') = None \<Longrightarrow>
     loadRecords rt contract ok ch = Some []"
  by (simp add: loadRecords_def getData_def parse_keys_def finish_load_def sort_records_def)

lemma loadRecords_array:
  "contract \<Longrightarrow> ok ''record_keys'' \<Longrightarrow> ch ''record_keys'' \<noteq> [] \<Longrightarrow>
   JSON_parse rt (ch ''record_keys'') = Some (JArr keys) \<Longrightarrow>
     loadRecords rt contract ok ch = finish_load rt (for_keys rt ok ch [] keys)"
  by (simp add: loadRecords_def getData_def parse_keys_def)

lemma loadRecords_record_parse_failure:
  assumes "contract" "ok ''record_keys''" "ch ''record_keys'' \<noteq> []"
    and "JSON_parse rt (ch ''record_keys'') = Some (JArr (ks1 @ key # ks2))"
    and "js_String rt key = Some name" "ok (''record_'' @ name)"
    and "JSON_parse rt (ch (''record_'' @ name)) = None"
  shows "loadRecords rt contract ok ch = finish_load rt (for_keys rt ok ch [] (ks1 @ ks2))"
  using assms loadRecords_array [of contract ok ch rt "ks1 @ key # ks2"]
    for_keys_skip [of rt key name ok ch "[]" ks1 ks2]
  by simp

text \<open>
  A key whose string conversion throws is not a parse failure, and it does end the
  load: \<open>setRecords\<close> is not reached.
\<close>

lemma loadRecords_key_conversion_throws:
  "contract \<Longrightarrow> ok ''record_keys'' \<Longrightarrow> ch ''record_keys'' \<noteq> [] \<Longrightarrow>
   JSON_parse rt (ch ''record_keys'') = Some (JArr (key # keys)) \<Longrightarrow>
   js_String rt key = None \<Longrightarrow>
     loadRecords rt contract ok ch = None"
  by (simp add: loadRecords_array load_key_conversion_throws finish_load_def)

text \<open>
  C7. In \<open>loadRecords\<close>, with the contract there and the index read: if the
  "record_keys" blob does not parse, the list handed to \<open>setRecords\<close> is empty. If
  the blob of a key does not parse, the body of the loop gives the list back as it
  was and does not throw, the loop goes on as if the key were not in the index, and
  the whole load has the outcome it has for the index without that key. A parse
  failure therefore never ends the load, and \<open>loadRecords\<close> catches whatever else is
  thrown.
\<close>

theorem loadRecords_parse_failures:
  "(contract \<and> ok ''record_keys'' \<and> JSON_parse rt (ch ''record_keys'') = None \<longrightarrow>
      loadRecords rt contract ok ch = Some []) \<and>
   (js_String rt key = Some name \<and> ok (''record_'' @ name) \<and>
    JSON_parse rt (ch2 (''record_'' @ name)) = None \<longrightarrow>
      load_key rt ok ch2 list key = Inr list \<and>
      for_keys rt ok ch2 list (ks1 @ key # ks2) = for_keys rt ok ch2 list (ks1 @ ks2)) \<and>
   (contract \<and> ok ''record_keys'' \<and> ch2 ''record_keys'' \<noteq> [] \<and>
    JSON_parse rt (ch2 ''record_keys'') = Some (JArr (ks1 @ key # ks2)) \<and>
    js_String rt key = Some name \<and> ok (''record_'' @ name) \<and>
    JSON_parse rt (ch2 (''record_'' @ name)) = None \<longrightarrow>
      loadRecords rt contract ok ch2 = finish_load rt (for_keys rt ok ch2 [] (ks1 @ ks2)))"
proof -
  have p1: "contract \<and> ok ''record_keys'' \<and> JSON_parse rt (ch ''record_keys'') = None \<longrightarrow>
      loadRecords rt contract ok ch = Some []"
    using loadRecords_keys_parse_failure [of contract ok rt ch] by blast
  have p2: "js_String rt key = Some name \<and> ok (''record_'' @ name) \<and>
    JSON_parse rt (ch2 (''record_'' @ name)) = None \<longrightarrow>
      load_key rt ok ch2 list key = Inr list \<and>
      for_keys rt ok ch2 list (ks1 @ key # ks2) = for_keys rt ok ch2 list (ks1 @ ks2)"
    using load_key_parse_failure [of rt key name ok ch2 list]
      for_keys_skip [of rt key name ok ch2 list ks1 ks2] by blast
  have p3: "contract \<and> ok ''record_keys'' \<and> ch2 ''record_keys'' \<noteq> [] \<and>
    JSON_parse rt (ch2 ''record_keys'') = Some (JArr (ks1 @ key # ks2)) \<and>
    js_String rt key = Some name \<and> ok (''record_'' @ name) \<and>
    JSON_parse rt (ch2 (''record_'' @ name)) = None \<longrightarrow>
      loadRecords rt contract ok ch2 = finish_load rt (for_keys rt ok ch2 [] (ks1 @ ks2))"
    using loadRecords_record_parse_failure [of contract ok ch2 rt ks1 key ks2 name] by blast
  from p1 p2 p3 show ?thesis by (intro conjI)
qed

theorem loadRecords_parse_failures_witness:
  "JSON_parse demo_runtime (broken_index_chain ''record_keys'') = None \<and>
   loadRecords demo_runtime True (\<lambda>k. True) broken_index_chain = Some [] \<and>
   demo_chain ''record_keys'' \<noteq> [] \<and>
   JSON_parse demo_runtime (demo_chain ''record_keys'') = Some (JArr ([] @ JNum 1 # [JNum 2])) \<and>
   js_String demo_runtime (JNum 1) = Some ''1'' \<and>
   JSON_parse demo_runtime (demo_chain (''record_'' @ ''1'')) = None \<and>
   load_key demo_runtime (\<lambda>k. True) demo_chain [] (JNum 1) = Inr [] \<and>
   loadRecords demo_runtime True (\<lambda>k. True) demo_chain =
     finish_load demo_runtime (for_keys demo_runtime (\<lambda>k. True) demo_chain [] ([] @ [JNum 2])) \<and>
   loadRecords demo_runtime True (\<lambda>k. True) demo_chain =
     Some [\<lparr>id_r = JNum 2, encryptedData = Undefined, timestamp_r = Undefined,
            owner = Undefined, workType = Undefined, productivityScore = Undefined\<rparr>]"
proof -
  have h1: "JSON_parse demo_runtime (broken_index_chain ''record_keys'') = None"
    by (simp add: demo_runtime_def broken_index_chain_def)
  have h2: "demo_chain ''record_keys'' \<noteq> []" by (simp add: demo_chain_def)
  have h3: "JSON_parse demo_runtime (demo_chain ''record_keys'') =
      Some (JArr ([] @ JNum 1 # [JNum 2]))"
    by (simp add: demo_runtime_def demo_chain_def)
  have h4: "js_String demo_runtime (JNum 1) = Some ''1''" by (simp add: demo_runtime_def)
  have h5: "JSON_parse demo_runtime (demo_chain (''record_'' @ ''1'')) = None"
    by (simp add: demo_runtime_def demo_chain_def)
  have v: "loadRecords demo_runtime True (\<lambda>k. True) demo_chain =
     Some [\<lparr>id_r = JNum 2, encryptedData = Undefined, timestamp_r = Undefined,
            owner = Undefined, workType = Undefined, productivityScore = Undefined\<rparr>]"
    by (simp add: loadRecords_def getData_def parse_keys_def demo_runtime_def demo_chain_def
        load_key_def make_record_def finish_load_def sort_records_def)
  from loadRecords_parse_failures [where contract = True and ok = "\<lambda>k. True"
      and rt = demo_runtime and ch = broken_index_chain and ?ch2.0 = demo_chain
      and ?ks1.0 = "[]" and key = "JNum 1" and name = "''1''" and ?ks2.0 = "[JNum 2]"
      and list = "[]"]
    h1 h2 h3 h4 h5
  have "loadRecords demo_runtime True (\<lambda>k. True) broken_index_chain = Some []"
    and "load_key demo_runtime (\<lambda>k. True) demo_chain [] (JNum 1) = Inr []"
    and "loadRecords demo_runtime True (\<lambda>k. True) demo_chain =
     finish_load demo_runtime (for_keys demo_runtime (\<lambda>k. True) demo_chain [] ([] @ [JNum 2]))"
    by blast+
  with h1 h2 h3 h4 h5 v show ?thesis by blast
qed

subsection \<open>submitRecord\<close>

lemma record_key_not_index: "''record_'' @ recordId sub \<noteq> ''record_keys''"
proof
  assume "''record_'' @ recordId sub = ''record_keys''"
  then have "recordId sub = ''keys''" by simp
  moreover have "CHR ''-'' \<in> set (recordId sub)" by (simp add: recordId_def)
  ultimately have "CHR ''-'' \<in> set ''keys''" by simp
  then show False by simp
qed

lemma submitRecord_orphan:
  "provider sub \<Longrightarrow> signer_contract sub \<Longrightarrow> write_record_ok sub \<Longrightarrow>
   \<not> read_keys_ok sub \<or> \<not> write_keys_ok sub \<Longrightarrow>
     (\<exists>err. submitRecord rt sub ch =
        (ch(''record_'' @ recordId sub := recordData sub), Failed err)) \<and>
     (ch(''record_'' @ recordId sub := recordData sub)) ''record_keys'' = ch ''record_keys''"
  using record_key_not_index [of sub]
  by (auto simp: submitRecord_def setData_def getData_def split: sum.splits)

lemma submitRecord_first_call_fails:
  "\<not> write_record_ok sub \<Longrightarrow> fst (submitRecord rt sub ch) = ch"
  by (simp add: submitRecord_def setData_def)

lemma submitRecord_success:
  "provider sub \<Longrightarrow> signer_contract sub \<Longrightarrow> write_record_ok sub \<Longrightarrow> read_keys_ok sub \<Longrightarrow>
   write_keys_ok sub \<Longrightarrow> parse_keys rt (ch ''record_keys'') = JArr ks \<Longrightarrow>
     submitRecord rt sub ch =
       (ch(''record_'' @ recordId sub := recordData sub,
           ''record_keys'' := JSON_stringify rt (JArr (ks @ [JStr (recordId sub)]))), Submitted)"
  using record_key_not_index [of sub]
  by (simp add: submitRecord_def setData_def getData_def)

text \<open>
  C8. \<open>submitRecord\<close> makes its contract calls in a fixed order: the write of the
  record blob under \<open>record_<id>\<close>, then the read of "record_keys", then the write of
  "record_keys". When the first write is rejected nothing is written. When the first
  write goes through and the read or the second write is rejected, the submission
  fails with the record blob stored and the key index as it was: an orphaned record.
  When all three go through and the index is an array, the record is stored and the
  index is the old one with the new id appended.
\<close>

theorem submitRecord_not_atomic:
  "(provider sub \<and> signer_contract sub \<and> write_record_ok sub \<and>
    (\<not> read_keys_ok sub \<or> \<not> write_keys_ok sub) \<longrightarrow>
      (\<exists>err. submitRecord rt sub ch =
         (ch(''record_'' @ recordId sub := recordData sub), Failed err)) \<and>
      (ch(''record_'' @ recordId sub := recordData sub)) ''record_keys'' = ch ''record_keys'') \<and>
   (\<not> write_record_ok sub2 \<longrightarrow> fst (submitRecord rt sub2 ch) = ch) \<and>
   (provider sub3 \<and> signer_contract sub3 \<and> write_record_ok sub3 \<and> read_keys_ok sub3 \<and>
    write_keys_ok sub3 \<and> parse_keys rt (ch ''record_keys'') = JArr ks \<longrightarrow>
      submitRecord rt sub3 ch =
        (ch(''record_'' @ recordId sub3 := recordData sub3,
            ''record_keys'' := JSON_stringify rt (JArr (ks @ [JStr (recordId sub3)]))),
         Submitted))"
  using submitRecord_orphan [of sub rt ch] submitRecord_first_call_fails [of sub2 rt ch]
    submitRecord_success [of sub3 rt ch ks]
  by blast

theorem submitRecord_not_atomic_witness:
  "submitRecord demo_runtime (demo_submission\<lparr>write_keys_ok := False\<rparr>) (\<lambda>k. []) =
     ((\<lambda>k. [])(''record_1700000000000-k3j9x2a'' := ''{}''), Failed CallRejected) \<and>
   fst (submitRecord demo_runtime (demo_submission\<lparr>write_record_ok := False\<rparr>) (\<lambda>k. [])) =
     (\<lambda>k. []) \<and>
   submitRecord demo_runtime demo_submission (\<lambda>k. []) =
     ((\<lambda>k. [])(''record_1700000000000-k3j9x2a'' := ''{}'', ''record_keys'' := ''[k]''),
      Submitted)"
proof -
  let ?sub = "demo_submission\<lparr>write_keys_ok := False\<rparr>"
  let ?sub2 = "demo_submission\<lparr>write_record_ok := False\<rparr>"
  let ?ch = "(\<lambda>k. []) :: chain"
  have h1: "provider ?sub \<and> signer_contract ?sub \<and> write_record_ok ?sub \<and>
    (\<not> read_keys_ok ?sub \<or> \<not> write_keys_ok ?sub)"
    by (simp add: demo_submission_def)
  have h2: "\<not> write_record_ok ?sub2" by (simp add: demo_submission_def)
  have h3: "provider demo_submission \<and> signer_contract demo_submission \<and>
    write_record_ok demo_submission \<and> read_keys_ok demo_submission \<and>
    write_keys_ok demo_submission \<and> parse_keys demo_runtime (?ch ''record_keys'') = JArr []"
    by (simp add: demo_submission_def parse_keys_def)
  have v: "''record_'' @ recordId ?sub = ''record_1700000000000-k3j9x2a''"
    "''record_'' @ recordId demo_submission = ''record_1700000000000-k3j9x2a''"
    "recordData ?sub = ''{}''" "recordData demo_submission = ''{}''"
    "JSON_stringify demo_runtime (JArr ([] @ [JStr (recordId demo_submission)])) = ''[k]''"
    by (simp_all add: recordId_def demo_submission_def demo_runtime_def)
  from submitRecord_not_atomic [where sub = ?sub and ?sub2.0 = ?sub2
      and ?sub3.0 = demo_submission and rt = demo_runtime and ch = ?ch and ks = "[]"]
    h1 h2 h3
  have a: "\<exists>err. submitRecord demo_runtime ?sub ?ch =
         (?ch(''record_'' @ recordId ?sub := recordData ?sub), Failed err)"
    and b: "fst (submitRecord demo_runtime ?sub2 ?ch) = ?ch"
    and c: "submitRecord demo_runtime demo_submission ?ch =
        (?ch(''record_'' @ recordId demo_submission := recordData demo_submission,
            ''record_keys'' :=
              JSON_stringify demo_runtime (JArr ([] @ [JStr (recordId demo_submission)]))),
         Submitted)"
    by blast+
  have d: "snd (submitRecord demo_runtime ?sub ?ch) = Failed CallRejected"
    by (simp add: submitRecord_def setData_def getData_def demo_submission_def parse_keys_def
        recordId_def)
  from a d have a': "submitRecord demo_runtime ?sub ?ch =
         (?ch(''record_'' @ recordId ?sub := recordData ?sub), Failed CallRejected)"
    by auto
  from a' b c show ?thesis unfolding v by simp
qed

subsection \<open>The productivity score\<close>

lemma div_by_zero: "js_div fl (Finite 5) (Finite 0) = PosInf"
  by (simp add: js_div_def is_nan_def is_inf_def is_zero_def signed_inf_def)

lemma PosInf_times_10: "js_mul fl PosInf (Finite 10) = PosInf"
  by (simp add: js_mul_def is_nan_def is_inf_def is_zero_def signed_inf_def)

lemma PosInf_minus: "js_sub fl PosInf b \<in> {PosInf, NaN}"
  by (simp add: js_sub_def is_nan_def is_inf_def)

text \<open>
  C6. With 0 hours worked, 5 tasks and 2 distractions no rounding takes part in the
  result: \<open>5 / 0\<close> is \<open>Infinity\<close>, and so is the product with 10; the difference and
  its \<open>Math.round\<close> are \<open>Infinity\<close> (or \<open>NaN\<close>, should \<open>2 * 0.5\<close> not be finite). The
  stored record holds \<open>null\<close> for the score, not that number.
\<close>

theorem score_zero_hours_stored_null:
  "productivityScore_calc fl zero_hours \<in> {PosInf, NaN} \<and>
   get_prop (stored_recordData fl zero_hours encrypted seconds account) ''productivityScore'' =
     Inr (Defined JNull)"
proof -
  have "productivityScore_calc fl zero_hours =
          Math_round (js_sub fl PosInf (js_mul fl (Finite 2) (Finite (1 / 2))))"
    by (simp add: productivityScore_calc_def zero_hours_def div_by_zero PosInf_times_10)
  moreover have "Math_round a = a" if "a \<in> {PosInf, NaN}" for a
    using that by (auto simp: Math_round_def)
  ultimately have s: "productivityScore_calc fl zero_hours \<in> {PosInf, NaN}"
    using PosInf_minus [of fl "js_mul fl (Finite 2) (Finite (1 / 2))"] by auto
  then have "json_of_number (productivityScore_calc fl zero_hours) = JNull"
    by auto
  then show ?thesis using s by (simp add: stored_recordData_def)
qed

end
